theory Spec2Isabelle
  imports Complex_Main "HOL-Library.Multiset"
begin

section \<open>Statistics module (src/lib/statistics.js)\<close>

text \<open>
  JavaScript numbers are idealised as real numbers: every reducer below is the source's
  arithmetic read over \<open>real\<close>, so rounding, overflow to Infinity and NaN are outside the
  model. An array is a list. The only exception the module throws is the
  \<open>Error('Percentile must be between 0 and 100')\<close> of \<open>percentile\<close>, which the
  specification calls InvalidArgument.
\<close>

datatype error = InvalidArgument

text \<open>\<open>values.reduce((acc, val) => acc + val, 0)\<close>\<close>

definition reduce_add :: "real list \<Rightarrow> real" where
  "reduce_add values = foldl (\<lambda>acc val. acc + val) 0 values"

definition mean :: "real list \<Rightarrow> real" where
  "mean values =
     (if values = [] then 0
      else let sum = reduce_add values in sum / real (length values))"

text \<open>\<open>Math.min(...values)\<close> and \<open>Math.max(...values)\<close> on at least one argument.\<close>

definition Math_min :: "real list \<Rightarrow> real" where
  "Math_min values = fold min (tl values) (hd values)"

definition Math_max :: "real list \<Rightarrow> real" where
  "Math_max values = fold max (tl values) (hd values)"

definition min_js :: "real list \<Rightarrow> real" where
  "min_js values = (if values = [] then 0 else Math_min values)"

definition max_js :: "real list \<Rightarrow> real" where
  "max_js values = (if values = [] then 0 else Math_max values)"

text \<open>\<open>[...values].sort((a, b) => a - b)\<close> is the ascending sort of the copy.\<close>

definition median :: "real list \<Rightarrow> real" where
  "median values =
     (if values = [] then 0
      else let sorted = sort values;
               mid = length sorted div 2
           in if length sorted mod 2 = 0
              then (sorted ! (mid - 1) + sorted ! mid) / 2
              else sorted ! mid)"

text \<open>
  A JavaScript \<open>Map\<close> keeps its keys in insertion order: an association list in which
  \<open>set\<close> overwrites the value of a key that is present and appends a new key at the end.
\<close>

fun map_set :: "('k \<times> 'v) list \<Rightarrow> 'k \<Rightarrow> 'v \<Rightarrow> ('k \<times> 'v) list" where
  "map_set [] k v = [(k, v)]"
| "map_set ((k', v') # m) k v =
     (if k' = k then (k, v) # m else (k', v') # map_set m k v)"

text \<open>\<open>Math.round\<close> rounds half up.\<close>

definition Math_round :: "real \<Rightarrow> real" where
  "Math_round x = of_int \<lfloor>x + 1 / 2\<rfloor>"

definition mode :: "real list \<Rightarrow> real" where
  "mode values =
     (if values = [] then 0
      else let counts =
                 foldl (\<lambda>counts val.
                          let rounded = Math_round (val * 10) / 10
                          in map_set counts rounded
                               ((case map_of counts rounded of None \<Rightarrow> 0 | Some c \<Rightarrow> c) + (1::nat)))
                       [] values;
               (maxCount, modeValue) =
                 foldl (\<lambda>(maxCount, modeValue) (val, count).
                          if count > maxCount then (count, val) else (maxCount, modeValue))
                       (0, hd values) counts
           in modeValue)"

definition percentile :: "real list \<Rightarrow> real \<Rightarrow> error + real" where
  "percentile values p =
     (if values = [] then Inr 0
      else if p < 0 \<or> p > 100 then Inl InvalidArgument
      else let sorted = sort values in
        if p = 0 then Inr (sorted ! 0)
        else if p = 100 then Inr (sorted ! (length sorted - 1))
        else let index = (p / 100) * real (length sorted - 1);
                 lower = nat \<lfloor>index\<rfloor>;
                 upper = nat \<lceil>index\<rceil>;
                 fraction = index - real lower
             in if lower = upper then Inr (sorted ! lower)
                else Inr (sorted ! lower * (1 - fraction) + sorted ! upper * fraction))"

definition total_js :: "real list \<Rightarrow> real" where
  "total_js values = (if values = [] then 0 else reduce_add values)"

text \<open>\<open>Math.sqrt\<close>; the real square root has no code equation.\<close>

definition Math_sqrt :: "real \<Rightarrow> real" where
  [code del]: "Math_sqrt x = sqrt x"

definition standardDeviation :: "real list \<Rightarrow> real" where
  "standardDeviation values =
     (if values = [] then 0
      else if length values = 1 then 0
      else let avg = mean values;
               squaredDiffs = map (\<lambda>val. (val - avg) ^ 2) values;
               avgSquaredDiff = mean squaredDiffs
           in Math_sqrt avgSquaredDiff)"

text \<open>
  The dispatcher. The \<open>console.warn\<close> of the default branch has no effect on the result.
  A thrown error of \<open>percentile\<close> would propagate to the caller.
\<close>

definition calculate :: "real list \<Rightarrow> string \<Rightarrow> error + real" where
  "calculate values statisticType =
     (if statisticType = ''average'' \<or> statisticType = ''mean'' then Inr (mean values)
      else if statisticType = ''min'' \<or> statisticType = ''minimum'' then Inr (min_js values)
      else if statisticType = ''max'' \<or> statisticType = ''maximum'' then Inr (max_js values)
      else if statisticType = ''median'' then Inr (median values)
      else if statisticType = ''mode'' then Inr (mode values)
      else if statisticType = ''p25'' \<or> statisticType = ''percentile25'' then percentile values 25
      else if statisticType = ''p75'' \<or> statisticType = ''percentile75'' then percentile values 75
      else if statisticType = ''p90'' \<or> statisticType = ''percentile90'' then percentile values 90
      else if statisticType = ''stddev'' \<or> statisticType = ''standardDeviation''
        then Inr (standardDeviation values)
      else if statisticType = ''total'' \<or> statisticType = ''sum'' then Inr (total_js values)
      else Inr (mean values))"

section \<open>The runtime's Date\<close>

text \<open>
  A JavaScript \<open>Date\<close> holds a time value: the milliseconds since 1970-01-01T00:00:00Z,
  an integer. The getters and setters the source calls are the ones of the language
  standard, read in local time; local time is UTC plus the offset \<open>tza\<close> (milliseconds
  east of UTC), which every function below takes as its first argument. The offset is
  fixed, so daylight-saving changes are outside the model, and so are the invalid date
  (NaN) and the limits of the time-value range.

  The calendar is the proleptic Gregorian one. \<open>civil_from_days\<close> turns the number of a
  day (days since 1970-01-01) into year, month (1 to 12) and day of the month, counting
  in eras of 400 years whose years begin on 1 March; \<open>days_from_civil\<close> is its inverse.
\<close>

definition eraOf :: "int \<Rightarrow> int" where
  "eraOf days = (days + 719468) div 146097"

definition dayOfEra :: "int \<Rightarrow> int" where
  "dayOfEra days = (days + 719468) mod 146097"

definition centuryOfEra :: "int \<Rightarrow> int" where
  "centuryOfEra days = min 3 (dayOfEra days div 36524)"

definition dayOfCentury :: "int \<Rightarrow> int" where
  "dayOfCentury days = dayOfEra days - centuryOfEra days * 36524"

definition cycleOfCentury :: "int \<Rightarrow> int" where
  "cycleOfCentury days = dayOfCentury days div 1461"

definition dayOfCycle :: "int \<Rightarrow> int" where
  "dayOfCycle days = dayOfCentury days mod 1461"

definition yearOfCycle :: "int \<Rightarrow> int" where
  "yearOfCycle days = min 3 (dayOfCycle days div 365)"

definition dayOfYear :: "int \<Rightarrow> int" where
  "dayOfYear days = dayOfCycle days - yearOfCycle days * 365"

definition yearOfEra :: "int \<Rightarrow> int" where
  "yearOfEra days = centuryOfEra days * 100 + cycleOfCentury days * 4 + yearOfCycle days"

definition monthIndex :: "int \<Rightarrow> int" where
  "monthIndex days = (5 * dayOfYear days + 2) div 153"

definition civil_from_days :: "int \<Rightarrow> int \<times> int \<times> int" where
  "civil_from_days days =
     (let mp = monthIndex days;
          d = dayOfYear days - (153 * mp + 2) div 5 + 1;
          m = (if mp < 10 then mp + 3 else mp - 9);
          y = eraOf days * 400 + yearOfEra days
      in (if m \<le> 2 then y + 1 else y, m, d))"

definition yearStart :: "int \<Rightarrow> int" where
  "yearStart y =
     (let era = y div 400;
          yoe = y mod 400
      in era * 146097 + (yoe * 365 + yoe div 4 - yoe div 100))"

definition days_from_civil :: "int \<Rightarrow> int \<Rightarrow> int \<Rightarrow> int" where
  "days_from_civil year m d =
     (let y = (if m \<le> 2 then year - 1 else year);
          mp = (if m > 2 then m - 3 else m + 9);
          doy = (153 * mp + 2) div 5 + d - 1
      in yearStart y + doy - 719468)"

text \<open>
  The operations of the standard on time values. \<open>getMonth\<close> counts from 0. A setter
  replaces one field of the local time and lets it overflow into the next ones, so
  \<open>setDate(getDate() + 1)\<close> is the next day and \<open>setMonth(getMonth() + 1)\<close> keeps the day
  of the month and may run over the end of a short month. \<open>setHours4\<close> is \<open>setHours\<close>
  with the four arguments hour, minute, second and millisecond.
\<close>

definition msPerDay :: int where "msPerDay = 86400000"
definition msPerHour :: int where "msPerHour = 3600000"
definition msPerMinute :: int where "msPerMinute = 60000"

definition Day :: "int \<Rightarrow> int" where "Day t = t div msPerDay"
definition TimeWithinDay :: "int \<Rightarrow> int" where "TimeWithinDay t = t mod msPerDay"
definition LocalTime :: "int \<Rightarrow> int \<Rightarrow> int" where "LocalTime tza t = t + tza"
definition UTC :: "int \<Rightarrow> int \<Rightarrow> int" where "UTC tza t = t - tza"

definition MakeDay :: "int \<Rightarrow> int \<Rightarrow> int \<Rightarrow> int" where
  "MakeDay year month date =
     days_from_civil (year + month div 12) (month mod 12 + 1) 1 + date - 1"

definition MakeDate :: "int \<Rightarrow> int \<Rightarrow> int" where
  "MakeDate day time = day * msPerDay + time"

definition getFullYear :: "int \<Rightarrow> int \<Rightarrow> int" where
  "getFullYear tza t = fst (civil_from_days (Day (LocalTime tza t)))"

definition getMonth :: "int \<Rightarrow> int \<Rightarrow> int" where
  "getMonth tza t = fst (snd (civil_from_days (Day (LocalTime tza t)))) - 1"

definition getDate :: "int \<Rightarrow> int \<Rightarrow> int" where
  "getDate tza t = snd (snd (civil_from_days (Day (LocalTime tza t))))"

definition getDay :: "int \<Rightarrow> int \<Rightarrow> int" where
  "getDay tza t = (Day (LocalTime tza t) + 4) mod 7"

definition getHours :: "int \<Rightarrow> int \<Rightarrow> int" where
  "getHours tza t = (LocalTime tza t div msPerHour) mod 24"

definition getMinutes :: "int \<Rightarrow> int \<Rightarrow> int" where
  "getMinutes tza t = (LocalTime tza t div msPerMinute) mod 60"

definition setDate :: "int \<Rightarrow> int \<Rightarrow> int \<Rightarrow> int" where
  "setDate tza t date =
     UTC tza (MakeDate (MakeDay (getFullYear tza t) (getMonth tza t) date)
                       (TimeWithinDay (LocalTime tza t)))"

definition setMonth :: "int \<Rightarrow> int \<Rightarrow> int \<Rightarrow> int" where
  "setMonth tza t month =
     UTC tza (MakeDate (MakeDay (getFullYear tza t) month (getDate tza t))
                       (TimeWithinDay (LocalTime tza t)))"

definition setHours :: "int \<Rightarrow> int \<Rightarrow> int \<Rightarrow> int" where
  "setHours tza t hour = t + (hour - getHours tza t) * msPerHour"

definition setMinutes :: "int \<Rightarrow> int \<Rightarrow> int \<Rightarrow> int" where
  "setMinutes tza t minute = t + (minute - getMinutes tza t) * msPerMinute"

definition setHours4 :: "int \<Rightarrow> int \<Rightarrow> int \<Rightarrow> int \<Rightarrow> int \<Rightarrow> int \<Rightarrow> int" where
  "setHours4 tza t hour minute sec ms =
     UTC tza (MakeDate (Day (LocalTime tza t))
                       (hour * msPerHour + minute * msPerMinute + sec * 1000 + ms))"

text \<open>
  \<open>new Date("YYYY-MM-DD")\<close>: a date-only string is read as midnight UTC of that day.
  A full ISO timestamp is represented by its time value, so \<open>new Date(timestamp)\<close> and
  the round trip through \<open>toISOString()\<close> are the identity.
\<close>

definition Date_of_day :: "int \<times> int \<times> int \<Rightarrow> int" where
  "Date_of_day ymd = (case ymd of (y, m, d) \<Rightarrow> days_from_civil y m d * msPerDay)"

text \<open>\<open>String(n)\<close> for an integer and \<open>padStart\<close>.\<close>

fun String_nat :: "nat \<Rightarrow> string" where
  "String_nat n =
     (if n < 10 then [''0123456789'' ! n]
      else String_nat (n div 10) @ [''0123456789'' ! (n mod 10)])"

declare String_nat.simps [simp del]

definition String_int :: "int \<Rightarrow> string" where
  "String_int i = (if i < 0 then CHR ''-'' # String_nat (nat (- i)) else String_nat (nat i))"

definition padStart :: "string \<Rightarrow> nat \<Rightarrow> char \<Rightarrow> string" where
  "padStart s n c = replicate (n - length s) c @ s"

subsection \<open>Facts about the calendar\<close>

lemma calendar_examples:
  "civil_from_days 0 = (1970, 1, 1) \<and> civil_from_days 19782 = (2024, 2, 29)
   \<and> civil_from_days 19783 = (2024, 3, 1) \<and> civil_from_days (- 25509) = (1900, 2, 28)
   \<and> civil_from_days (- 25508) = (1900, 3, 1) \<and> civil_from_days 11016 = (2000, 2, 29)
   \<and> days_from_civil 2024 1 1 = 19723 \<and> days_from_civil 1969 12 31 = - 1"
  by code_simp

lemma dayOfEra_bounds: "0 \<le> dayOfEra D \<and> dayOfEra D < 146097"
  by (simp add: dayOfEra_def)

lemma centuryOfEra_bounds: "0 \<le> centuryOfEra D \<and> centuryOfEra D \<le> 3"
  using dayOfEra_bounds[of D] by (simp add: centuryOfEra_def pos_imp_zdiv_nonneg_iff)

lemma dayOfCentury_bounds: "0 \<le> dayOfCentury D \<and> dayOfCentury D \<le> 36524"
  using dayOfEra_bounds[of D] unfolding dayOfCentury_def centuryOfEra_def
  by (auto simp: min_def)

lemma cycleOfCentury_bounds: "0 \<le> cycleOfCentury D \<and> cycleOfCentury D \<le> 24"
  using dayOfCentury_bounds[of D] unfolding cycleOfCentury_def by linarith

lemma dayOfCycle_bounds: "0 \<le> dayOfCycle D \<and> dayOfCycle D < 1461"
  by (simp add: dayOfCycle_def)

lemma yearOfCycle_bounds: "0 \<le> yearOfCycle D \<and> yearOfCycle D \<le> 3"
  using dayOfCycle_bounds[of D] by (simp add: yearOfCycle_def pos_imp_zdiv_nonneg_iff)

lemma dayOfYear_bounds: "0 \<le> dayOfYear D \<and> dayOfYear D \<le> 365"
  using dayOfCycle_bounds[of D] unfolding dayOfYear_def yearOfCycle_def
  by (auto simp: min_def)

lemma monthIndex_bounds: "0 \<le> monthIndex D \<and> monthIndex D \<le> 11"
  using dayOfYear_bounds[of D] unfolding monthIndex_def by linarith

lemma yearOfEra_bounds: "0 \<le> yearOfEra D \<and> yearOfEra D < 400"
  using centuryOfEra_bounds[of D] cycleOfCentury_bounds[of D] yearOfCycle_bounds[of D]
  unfolding yearOfEra_def by linarith

lemma yearOfEra_div4: "yearOfEra D div 4 = centuryOfEra D * 25 + cycleOfCentury D"
  using yearOfCycle_bounds[of D] unfolding yearOfEra_def by linarith

lemma yearOfEra_div100: "yearOfEra D div 100 = centuryOfEra D"
  using cycleOfCentury_bounds[of D] yearOfCycle_bounds[of D] unfolding yearOfEra_def by linarith

lemma dayOfEra_decompose:
  "yearOfEra D * 365 + yearOfEra D div 4 - yearOfEra D div 100 + dayOfYear D = dayOfEra D"
proof -
  have "dayOfCentury D = cycleOfCentury D * 1461 + dayOfCycle D"
    by (simp add: cycleOfCentury_def dayOfCycle_def)
  then have "dayOfEra D = centuryOfEra D * 36524 + cycleOfCentury D * 1461
                + yearOfCycle D * 365 + dayOfYear D"
    by (simp add: dayOfCentury_def dayOfYear_def)
  then show ?thesis
    unfolding yearOfEra_div4 yearOfEra_div100 by (simp add: yearOfEra_def)
qed

lemma civil_from_days_month:
  "civil_from_days D = (y, m, d) \<Longrightarrow> 1 \<le> m \<and> m \<le> 12"
  using monthIndex_bounds[of D] by (auto simp: civil_from_days_def Let_def split: if_splits)

lemma yearStart_of_era:
  "yearStart (eraOf D * 400 + yearOfEra D) = eraOf D * 146097 + dayOfEra D - dayOfYear D"
proof -
  define y where "y = eraOf D * 400 + yearOfEra D"
  have ydiv: "y div 400 = eraOf D" using yearOfEra_bounds[of D] unfolding y_def by linarith
  have ymod: "y mod 400 = yearOfEra D"
    using yearOfEra_bounds[of D] unfolding y_def by (simp add: mod_pos_pos_trivial)
  have "yearStart y = eraOf D * 146097 + (yearOfEra D * 365 + yearOfEra D div 4 - yearOfEra D div 100)"
    by (simp only: yearStart_def Let_def ydiv ymod)
  then show ?thesis
    unfolding y_def using dayOfEra_decompose[of D] by simp
qed

lemma days_from_civil_civil_from_days:
  "(case civil_from_days D of (y, m, d) \<Rightarrow> days_from_civil y m d) = D"
proof -
  define mp where "mp = monthIndex D"
  define d where "d = dayOfYear D - (153 * mp + 2) div 5 + 1"
  define m where "m = (if mp < 10 then mp + 3 else mp - 9)"
  define y where "y = eraOf D * 400 + yearOfEra D"
  have cfd: "civil_from_days D = (if m \<le> 2 then y + 1 else y, m, d)"
    by (simp only: civil_from_days_def Let_def mp_def d_def m_def y_def)
  have mp: "0 \<le> mp" "mp \<le> 11" using monthIndex_bounds[of D] by (simp_all add: mp_def)
  have yy: "(if m \<le> 2 then (if m \<le> 2 then y + 1 else y) - 1 else (if m \<le> 2 then y + 1 else y)) = y"
    by simp
  have mpp: "(if m > 2 then m - 3 else m + 9) = mp" using mp unfolding m_def by auto
  have doy': "(153 * mp + 2) div 5 + d - 1 = dayOfYear D" by (simp add: d_def)
  have "D + 719468 = eraOf D * 146097 + dayOfEra D" by (simp add: eraOf_def dayOfEra_def)
  then have "eraOf D * 146097 + dayOfEra D - dayOfYear D + dayOfYear D - 719468 = D" by simp
  then have "yearStart y + dayOfYear D - 719468 = D"
    unfolding y_def yearStart_of_era .
  then show ?thesis
    unfolding cfd by (simp only: prod.case days_from_civil_def Let_def yy mpp doy')
qed

lemma div4_div100_step:
  fixes k :: int
  shows "(k - 1) div 4 - (k - 1) div 100 \<le> k div 4 - k div 100"
proof (cases "k mod 100 = 0")
  case True
  define j where "j = k div 100"
  have k: "k = 100 * j" using True mult_div_mod_eq[of 100 k] unfolding j_def by simp
  have "(k - 1) div 100 = j - 1" "k div 100 = j" "k div 4 = 25 * j" "(k - 1) div 4 = 25 * j - 1"
    unfolding k by linarith+
  then show ?thesis by simp
next
  case False
  define j where "j = k div 100"
  define r where "r = k mod 100"
  have r: "1 \<le> r" "r < 100"
    using False pos_mod_bound[of 100 k] pos_mod_sign[of 100 k] unfolding r_def by linarith+
  have k: "k = 100 * j + r" by (simp add: j_def r_def)
  have "(k - 1) div 100 = j" "k div 100 = j" unfolding k using r by linarith+
  moreover have "(k - 1) div 4 \<le> k div 4" by linarith
  ultimately show ?thesis by simp
qed

lemma year_start_arith:
  fixes a1 b1 a2 b2 e k :: int
  assumes "a1 - b1 \<le> a2 - b2"
  shows "e * 146097 + ((k - 1) * 365 + a1 - b1) + 365 \<le> e * 146097 + (k * 365 + a2 - b2)"
  using assms by (simp add: algebra_simps)

lemma year_start_mono:
  fixes y :: int
  shows "yearStart (y - 1) + 365 \<le> yearStart y"
proof (cases "y mod 400 = 0")
  case True
  define e where "e = y div 400"
  have e: "y = 400 * e" using True mult_div_mod_eq[of 400 y] unfolding e_def by simp
  have "y - 1 = 399 + 400 * (e - 1)" unfolding e by simp
  then have f1: "(y - 1) div 400 = e - 1" and f2: "(y - 1) mod 400 = 399"
    by (simp_all only: div_mult_self2 mod_mult_self2) simp_all
  show ?thesis
    unfolding yearStart_def Let_def f1 f2 True e_def[symmetric] by simp
next
  case False
  define k where "k = y mod 400"
  define e where "e = y div 400"
  have k: "1 \<le> k" "k < 400"
    using False pos_mod_bound[of 400 y] pos_mod_sign[of 400 y] unfolding k_def by linarith+
  have y: "y = 400 * e + k" by (simp add: e_def k_def)
  have "y - 1 = (k - 1) + 400 * e" unfolding y by simp
  then have "(y - 1) div 400 = e + (k - 1) div 400" and "(y - 1) mod 400 = (k - 1) mod 400"
    by (simp_all only: div_mult_self2 mod_mult_self2)
  moreover have "(k - 1) div 400 = 0" "(k - 1) mod 400 = k - 1"
    using k by (simp_all add: div_pos_pos_trivial mod_pos_pos_trivial)
  ultimately have f1: "(y - 1) div 400 = e" and f2: "(y - 1) mod 400 = k - 1" by simp_all
  show ?thesis
    unfolding yearStart_def Let_def f1 f2 k_def[symmetric] e_def[symmetric]
    by (rule year_start_arith) (rule div4_div100_step)
qed

lemma days_from_civil_day: "days_from_civil y m d = days_from_civil y m 1 + d - 1"
  by (simp add: days_from_civil_def Let_def)

lemma MakeDay_local:
  "MakeDay (getFullYear tza t) (getMonth tza t) date
     = Day (LocalTime tza t) + date - getDate tza t"
proof -
  obtain y m d where c: "civil_from_days (Day (LocalTime tza t)) = (y, m, d)"
    by (cases "civil_from_days (Day (LocalTime tza t))") auto
  have m: "1 \<le> m" "m \<le> 12" using civil_from_days_month[OF c] by simp_all
  have m1: "(m - 1) div 12 = 0" "(m - 1) mod 12 + 1 = m"
    using m by (simp_all add: div_pos_pos_trivial mod_pos_pos_trivial)
  have "days_from_civil y m d = Day (LocalTime tza t)"
    using days_from_civil_civil_from_days[of "Day (LocalTime tza t)"] by (simp add: c)
  then have "days_from_civil y m 1 = Day (LocalTime tza t) - d + 1"
    using days_from_civil_day[of y m d] by simp
  then show ?thesis
    by (simp add: MakeDay_def getFullYear_def getMonth_def getDate_def c m1)
qed

lemma MakeDate_Day: "MakeDate (Day t) (TimeWithinDay t) = t"
  by (simp add: MakeDate_def Day_def TimeWithinDay_def)

lemma setDate_plus: "setDate tza t (getDate tza t + k) = t + k * msPerDay"
proof -
  have "MakeDate (Day (LocalTime tza t) + k) (TimeWithinDay (LocalTime tza t))
          = LocalTime tza t + k * msPerDay"
    using MakeDate_Day[of "LocalTime tza t"] by (simp add: MakeDate_def algebra_simps)
  then show ?thesis
    by (simp add: setDate_def MakeDay_local UTC_def LocalTime_def)
qed

lemma next_month_later:
  assumes "1 \<le> m" "m \<le> 12"
  shows "days_from_civil y m 1 < days_from_civil (y + m div 12) (m mod 12 + 1) 1"
proof -
  have "m = 1 \<or> m = 2 \<or> m = 3 \<or> m = 4 \<or> m = 5 \<or> m = 6 \<or> m = 7 \<or> m = 8
        \<or> m = 9 \<or> m = 10 \<or> m = 11 \<or> m = 12"
    using assms by presburger
  moreover have "m = 2 \<Longrightarrow> ?thesis"
    using year_start_mono[of y] by (simp add: days_from_civil_def)
  ultimately show ?thesis
    by (elim disjE) (simp_all add: days_from_civil_def)
qed

lemma setMonth_next: "t < setMonth tza t (getMonth tza t + 1)"
proof -
  obtain y m d where c: "civil_from_days (Day (LocalTime tza t)) = (y, m, d)"
    by (cases "civil_from_days (Day (LocalTime tza t))") auto
  have m: "1 \<le> m" "m \<le> 12" using civil_from_days_month[OF c] by simp_all
  have "days_from_civil y m d = Day (LocalTime tza t)"
    using days_from_civil_civil_from_days[of "Day (LocalTime tza t)"] by (simp add: c)
  then have old: "Day (LocalTime tza t) = days_from_civil y m 1 + d - 1"
    using days_from_civil_day[of y m d] by simp
  have new: "MakeDay (getFullYear tza t) (getMonth tza t + 1) (getDate tza t)
               = days_from_civil (y + m div 12) (m mod 12 + 1) 1 + d - 1"
    by (simp add: MakeDay_def getFullYear_def getMonth_def getDate_def c)
  have "Day (LocalTime tza t) + 1 \<le> MakeDay (getFullYear tza t) (getMonth tza t + 1) (getDate tza t)"
    unfolding new old using next_month_later[OF m, of y] by simp
  then have "(Day (LocalTime tza t) + 1) * msPerDay
               \<le> MakeDay (getFullYear tza t) (getMonth tza t + 1) (getDate tza t) * msPerDay"
    by (simp add: msPerDay_def)
  moreover have "MakeDate (Day (LocalTime tza t)) (TimeWithinDay (LocalTime tza t)) = LocalTime tza t"
    by (rule MakeDate_Day)
  ultimately have "LocalTime tza t < MakeDate (MakeDay (getFullYear tza t) (getMonth tza t + 1) (getDate tza t))
                       (TimeWithinDay (LocalTime tza t))"
    by (simp add: MakeDate_def msPerDay_def algebra_simps)
  then show ?thesis
    by (simp add: setMonth_def UTC_def LocalTime_def)
qed

section \<open>Time utilities (lib/time-utils.js)\<close>

text \<open>
  A reading of the area dataset carries \<open>regionId\<close>, one of the blockface dataset
  \<open>blockfaceId\<close>; each dataset is only ever asked for its own field. The timestamp is
  the time value of the reading's ISO string.
\<close>

record reading =
  timestamp :: int
  regionId :: string
  blockfaceId :: string
  occupied :: real
  capacity :: real
  transactions :: real

text \<open>A range holds two date-only strings (YYYY-MM-DD), kept as year, month, day.\<close>

record TimeRange =
  range_start :: "int \<times> int \<times> int"
  range_end :: "int \<times> int \<times> int"

definition isInRange :: "int \<Rightarrow> int \<Rightarrow> TimeRange \<Rightarrow> bool" where
  "isInRange tza ts rng =
     (let date = ts;
          start = Date_of_day (range_start rng);
          end_t = setHours4 tza (Date_of_day (range_end rng)) 23 59 59 999
      in date \<ge> start \<and> date \<le> end_t)"

text \<open>
  The two filters return the array they were given when the pattern is empty (a missing
  \<open>days\<close> or \<open>ranges\<close> argument is not modelled: the patterns of the state are arrays).
\<close>

definition getDayOfWeek :: "int \<Rightarrow> int \<Rightarrow> int" where
  "getDayOfWeek tza ts = getDay tza ts"

definition getHour :: "int \<Rightarrow> int \<Rightarrow> int" where
  "getHour tza ts = getHours tza ts"

definition filterByDayOfWeek :: "int \<Rightarrow> reading list \<Rightarrow> int list \<Rightarrow> reading list" where
  "filterByDayOfWeek tza readings days =
     (if days = [] \<or> length days = 7 then readings
      else filter (\<lambda>r. getDayOfWeek tza (timestamp r) \<in> set days) readings)"

definition filterByHourRange :: "int \<Rightarrow> reading list \<Rightarrow> (int \<times> int) list \<Rightarrow> reading list" where
  "filterByHourRange tza readings ranges =
     (if ranges = [] then readings
      else filter (\<lambda>r. let hour = getHour tza (timestamp r)
                        in list_ex (\<lambda>(start, end_h). hour \<ge> start \<and> hour \<le> end_h) ranges)
             readings)"

function getBucketKey :: "int \<Rightarrow> int \<Rightarrow> string \<Rightarrow> string" where
  "getBucketKey tza ts aggregation =
     (if aggregation = ''15min'' then
        (let minutes = (getMinutes tza ts div 15) * 15;
             padMonth = padStart (String_int (getMonth tza ts + 1)) 2 CHR ''0'';
             padDate = padStart (String_int (getDate tza ts)) 2 CHR ''0'';
             padHour = padStart (String_int (getHours tza ts)) 2 CHR ''0'';
             padMin = padStart (String_int minutes) 2 CHR ''0''
         in String_int (getFullYear tza ts) @ ''-'' @ padMonth @ ''-'' @ padDate
              @ ''T'' @ padHour @ '':'' @ padMin)
      else if aggregation = ''hourly'' then
        (let padMonth = padStart (String_int (getMonth tza ts + 1)) 2 CHR ''0'';
             padDate = padStart (String_int (getDate tza ts)) 2 CHR ''0'';
             padHour = padStart (String_int (getHours tza ts)) 2 CHR ''0''
         in String_int (getFullYear tza ts) @ ''-'' @ padMonth @ ''-'' @ padDate
              @ ''T'' @ padHour @ '':00'')
      else if aggregation = ''daily'' then
        (let padMonth = padStart (String_int (getMonth tza ts + 1)) 2 CHR ''0'';
             padDate = padStart (String_int (getDate tza ts)) 2 CHR ''0''
         in String_int (getFullYear tza ts) @ ''-'' @ padMonth @ ''-'' @ padDate)
      else if aggregation = ''weekly'' then
        (let day = getDay tza ts;
             diff = getDate tza ts - day + (if day = 0 then - 6 else 1);
             monday = setDate tza ts diff;
             padMonth = padStart (String_int (getMonth tza monday + 1)) 2 CHR ''0'';
             padDate = padStart (String_int (getDate tza monday)) 2 CHR ''0''
         in String_int (getFullYear tza monday) @ ''-'' @ padMonth @ ''-'' @ padDate)
      else if aggregation = ''monthly'' then
        (let padMonth = padStart (String_int (getMonth tza ts + 1)) 2 CHR ''0''
         in String_int (getFullYear tza ts) @ ''-'' @ padMonth @ ''-01'')
      else getBucketKey tza ts ''daily'')"
  by pat_completeness auto
termination
  by (relation "measure (\<lambda>(tza, ts, aggregation). if aggregation = ''daily'' then 0 else 1)")
     auto

declare getBucketKey.simps [simp del]

text \<open>The increment \<open>switch\<close> at the end of the loop body of \<open>generateBucketRange\<close>.\<close>

definition advance :: "int \<Rightarrow> string \<Rightarrow> int \<Rightarrow> int" where
  "advance tza aggregation current =
     (if aggregation = ''15min'' then setMinutes tza current (getMinutes tza current + 15)
      else if aggregation = ''hourly'' then setHours tza current (getHours tza current + 1)
      else if aggregation = ''daily'' then setDate tza current (getDate tza current + 1)
      else if aggregation = ''weekly'' then setDate tza current (getDate tza current + 7)
      else if aggregation = ''monthly'' then setMonth tza current (getMonth tza current + 1)
      else setDate tza current (getDate tza current + 1))"

lemma advance_later: "current < advance tza aggregation current"
  using setMonth_next[of current tza]
  by (simp add: advance_def setMinutes_def setHours_def setDate_plus msPerMinute_def
      msPerHour_def msPerDay_def)

function generateBucketRange_loop ::
    "int \<Rightarrow> string \<Rightarrow> int \<Rightarrow> int \<Rightarrow> string list \<Rightarrow> string list" where
  "generateBucketRange_loop tza aggregation end_t current keys =
     (if current \<le> end_t
      then generateBucketRange_loop tza aggregation end_t (advance tza aggregation current)
             (let key = getBucketKey tza current aggregation
              in if key \<in> set keys then keys else keys @ [key])
      else keys)"
  by pat_completeness auto
termination
proof (relation "measure (\<lambda>(tza, aggregation, end_t, current, keys). nat (end_t + 1 - current))",
    goal_cases)
  case 1
  show ?case by simp
next
  case (2 tza aggregation end_t current keys)
  then show ?case using advance_later[of current tza aggregation] by simp
qed

definition generateBucketRange :: "int \<Rightarrow> TimeRange \<Rightarrow> string \<Rightarrow> string list" where
  "generateBucketRange tza rng aggregation =
     (let start = Date_of_day (range_start rng);
          end_t = setHours4 tza (Date_of_day (range_end rng)) 23 59 59 999
      in generateBucketRange_loop tza aggregation end_t start [])"

declare generateBucketRange_loop.simps [simp del]

text \<open>
  \<open>bucketize\<close>: \<open>buckets.has\<close>, \<open>buckets.set(key, [])\<close> and \<open>buckets.get(key).push(reading)\<close>
  on an insertion-ordered \<open>Map\<close>. The push changes the array stored under the key in
  place; the key is present at that point, since the line before has created it.
\<close>

definition map_has :: "('k \<times> 'v) list \<Rightarrow> 'k \<Rightarrow> bool" where
  "map_has m k = (k \<in> fst ` set m)"

fun map_push :: "('k \<times> 'v list) list \<Rightarrow> 'k \<Rightarrow> 'v \<Rightarrow> ('k \<times> 'v list) list" where
  "map_push [] k x = []"
| "map_push ((k', xs) # m) k x =
     (if k' = k then (k', xs @ [x]) # m else (k', xs) # map_push m k x)"

definition bucketize :: "int \<Rightarrow> reading list \<Rightarrow> string \<Rightarrow> (string \<times> reading list) list" where
  "bucketize tza readings aggregation =
     foldl (\<lambda>buckets reading.
              let key = getBucketKey tza (timestamp reading) aggregation;
                  buckets1 = (if \<not> map_has buckets key then map_set buckets key [] else buckets)
              in map_push buckets1 key reading)
           [] readings"

text \<open>
  For stating what a bucket key denotes: the two-digit field, the key \<open>YYYY-MM-DD\<close> of a
  calendar date, and the day of the week of a day number (0 is Sunday, 1 is Monday;
  1970-01-01 was a Thursday).
\<close>

definition pad2 :: "int \<Rightarrow> string" where
  "pad2 n = padStart (String_int n) 2 CHR ''0''"

definition isoDate :: "int \<times> int \<times> int \<Rightarrow> string" where
  "isoDate ymd = (case ymd of (y, m, d) \<Rightarrow> String_int y @ ''-'' @ pad2 m @ ''-'' @ pad2 d)"

definition dayOfWeek :: "int \<Rightarrow> int" where
  "dayOfWeek D = (D + 4) mod 7"

text \<open>
  The elements of a list in the order of their first appearance, and a reading at a
  given time, for concrete instances.
\<close>

definition firstAppearances :: "'a list \<Rightarrow> 'a list" where
  "firstAppearances xs = rev (remdups (rev xs))"

definition reading_at :: "int \<Rightarrow> reading" where
  "reading_at t = \<lparr>timestamp = t, regionId = ''r1'', blockfaceId = '''', occupied = 1,
                   capacity = 2, transactions = 0\<rparr>"

section \<open>Properties of the statistics module\<close>










text \<open>
  Claim C4, as amended. On a non-empty array, \<open>percentile(v, p)\<close> with \<open>p\<close> outside
  [0,100] raises the InvalidArgument error. The empty-array guard comes first in the
  source, so on the empty array \<open>percentile\<close> returns 0 for every \<open>p\<close> and does not
  raise. For \<open>p\<close> within [0,100] it never raises.
\<close>

theorem percentile_raises_iff:
  "(v \<noteq> [] \<and> (p < 0 \<or> p > 100) \<longrightarrow> percentile v p = Inl InvalidArgument)
   \<and> (v = [] \<longrightarrow> percentile v p = Inr 0)
   \<and> (0 \<le> p \<and> p \<le> 100 \<longrightarrow> (\<exists>x. percentile v p = Inr x))"
  by (auto simp: percentile_def Let_def)

theorem percentile_raises_iff_witness:
  "percentile [1, 2, 3] 101 = Inl InvalidArgument
   \<and> percentile [1, 2, 3] (- 1) = Inl InvalidArgument
   \<and> percentile [] 101 = Inr 0
   \<and> (\<exists>x. percentile [1, 2, 3] 50 = Inr x)"
  using percentile_raises_iff[of "[1, 2, 3]" 101] percentile_raises_iff[of "[1, 2, 3]" "- 1"]
    percentile_raises_iff[of "[]" 101] percentile_raises_iff[of "[1, 2, 3]" 50]
  by simp

text \<open>
  Claim C4 as stated fails on the empty array: \<open>percentile([], 101)\<close> and
  \<open>percentile([], -1)\<close> return 0 and raise nothing.
\<close>

theorem percentile_empty_counterexample:
  "percentile [] 101 = Inr 0 \<and> percentile [] (- 1) = Inr 0"
  by (simp add: percentile_def)

text \<open>
  Claim C6. For every array and every statistic name that is none of the names the
  dispatcher recognises, \<open>calculate\<close> returns \<open>mean(v)\<close> and raises nothing.
\<close>

theorem calculate_unknown_is_mean:
  "statisticType \<notin> set [''average'', ''mean'', ''min'', ''minimum'', ''max'', ''maximum'',
       ''median'', ''mode'', ''p25'', ''percentile25'', ''p75'', ''percentile75'',
       ''p90'', ''percentile90'', ''stddev'', ''standardDeviation'', ''total'', ''sum'']
   \<Longrightarrow> calculate v statisticType = Inr (mean v)"
  by (simp add: calculate_def)

theorem calculate_unknown_is_mean_witness:
  "calculate [10, 20, 30, 40, 50] ''unknownStat'' = Inr 30"
proof -
  have "calculate [10, 20, 30, 40, 50] ''unknownStat'' = Inr (mean [10, 20, 30, 40, 50])"
    by (rule calculate_unknown_is_mean) simp
  then show ?thesis by (simp add: mean_def reduce_add_def)
qed


text \<open>
  Claim C8. On a non-empty array \<open>mean(v)\<close> is \<open>total(v)\<close> divided by the length of
  \<open>v\<close>; on the empty array \<open>mean\<close>, \<open>min\<close> and \<open>max\<close> each return 0.
\<close>

theorem mean_is_total_over_length:
  "(v \<noteq> [] \<longrightarrow> mean v = total_js v / real (length v))
   \<and> mean [] = 0 \<and> min_js [] = 0 \<and> max_js [] = 0"
  by (simp add: mean_def total_js_def min_js_def max_js_def)

theorem mean_is_total_over_length_witness:
  "mean [1, 2, 6] = total_js [1, 2, 6] / real (length [1, 2, 6 :: real]) \<and> mean [1, 2, 6] = 3"
  using mean_is_total_over_length[of "[1, 2, 6]"]
  by (simp add: total_js_def reduce_add_def)

section \<open>Properties of the time utilities\<close>

lemma Day_plus_days: "Day (t + k * msPerDay) = Day t + k"
  by (simp add: Day_def msPerDay_def)

lemma local_civil:
  "civil_from_days (Day (LocalTime tza t)) = (getFullYear tza t, getMonth tza t + 1, getDate tza t)"
  by (simp add: getFullYear_def getMonth_def getDate_def)

lemma getBucketKey_15min:
  "getBucketKey tza t ''15min''
     = isoDate (civil_from_days (Day (LocalTime tza t))) @ ''T'' @ pad2 (getHours tza t) @ '':''
         @ pad2 (getMinutes tza t div 15 * 15)"
  by (simp add: getBucketKey.simps[of tza t "''15min''"] Let_def isoDate_def pad2_def local_civil)

lemma getBucketKey_daily:
  "getBucketKey tza t ''daily'' = isoDate (civil_from_days (Day (LocalTime tza t)))"
  by (simp add: getBucketKey.simps[of tza t "''daily''"] Let_def isoDate_def pad2_def local_civil)

lemma pad2_1: "pad2 1 = ''01''"
  by (simp add: pad2_def padStart_def String_int_def String_nat.simps)

lemma getBucketKey_monthly:
  "getBucketKey tza t ''monthly'' = isoDate (getFullYear tza t, getMonth tza t + 1, 1)"
  by (simp add: getBucketKey.simps[of tza t "''monthly''"] Let_def isoDate_def pad2_1)
     (simp add: pad2_def)

lemma getBucketKey_unknown:
  "g \<notin> set [''15min'', ''hourly'', ''daily'', ''weekly'', ''monthly'']
     \<Longrightarrow> getBucketKey tza t g = getBucketKey tza t ''daily''"
  by (subst getBucketKey.simps) simp

lemma monday_offset:
  fixes D :: int
  defines "day \<equiv> (D + 4) mod 7"
  defines "k \<equiv> - day + (if day = 0 then - 6 else 1)"
  shows "(D + k + 4) mod 7 = 1 \<and> - 6 \<le> k \<and> k \<le> 0"
proof -
  have d: "0 \<le> day" "day < 7" by (simp_all add: day_def)
  have "D + 4 = 7 * ((D + 4) div 7) + day" by (simp add: day_def)
  then have "D + k + 4 = (day + k) + 7 * ((D + 4) div 7)" by simp
  then have "(D + k + 4) mod 7 = (day + k) mod 7" by (simp only: mod_mult_self2)
  moreover have "(day + k) mod 7 = 1" using d by (auto simp: k_def)
  ultimately show ?thesis using d by (auto simp: k_def)
qed

lemma getBucketKey_weekly:
  "getBucketKey tza t ''weekly''
     = isoDate (civil_from_days (Day (LocalTime tza t) - getDay tza t
                   + (if getDay tza t = 0 then - 6 else 1)))"
proof -
  define k where "k = - getDay tza t + (if getDay tza t = 0 then - 6 else 1)"
  define monday where "monday = setDate tza t (getDate tza t + k)"
  have m: "monday = t + k * msPerDay" by (simp add: monday_def setDate_plus)
  have "LocalTime tza monday = LocalTime tza t + k * msPerDay" by (simp add: m LocalTime_def)
  then have D: "Day (LocalTime tza monday) = Day (LocalTime tza t) + k"
    by (simp add: Day_plus_days)
  have diff: "getDate tza t - getDay tza t + (if getDay tza t = 0 then - 6 else 1) = getDate tza t + k"
    by (simp add: k_def)
  have "getBucketKey tza t ''weekly'' = isoDate (civil_from_days (Day (LocalTime tza monday)))"
    unfolding getBucketKey.simps[of tza t "''weekly''"] Let_def diff monday_def[symmetric]
    by (simp add: isoDate_def pad2_def local_civil)
  moreover have "Day (LocalTime tza t) + k
      = Day (LocalTime tza t) - getDay tza t + (if getDay tza t = 0 then - 6 else 1)"
    by (simp add: k_def)
  ultimately show ?thesis unfolding D by (simp only:)
qed

text \<open>
  Claim C5. For every timestamp \<open>t\<close> (read in local time): the 15-minute key is the
  date, the hour and the minutes floored to the multiple of 15 at or below them; the
  weekly key is the date of a Monday that lies at most 6 days before the day of \<open>t\<close>;
  the monthly key is the first day of the month of \<open>t\<close>; and for every granularity string
  outside 15min, hourly, daily, weekly and monthly the key is the daily key.
\<close>

theorem getBucketKey_keys:
  "(\<exists>mm. getBucketKey tza t ''15min''
            = isoDate (civil_from_days (Day (LocalTime tza t))) @ ''T'' @ pad2 (getHours tza t)
                @ '':'' @ pad2 mm
          \<and> mm mod 15 = 0 \<and> mm \<le> getMinutes tza t \<and> getMinutes tza t < mm + 15)
   \<and> (\<exists>D. getBucketKey tza t ''weekly'' = isoDate (civil_from_days D)
          \<and> dayOfWeek D = 1 \<and> D \<le> Day (LocalTime tza t) \<and> Day (LocalTime tza t) - D \<le> 6)
   \<and> getBucketKey tza t ''monthly'' = isoDate (getFullYear tza t, getMonth tza t + 1, 1)
   \<and> (g \<notin> set [''15min'', ''hourly'', ''daily'', ''weekly'', ''monthly'']
        \<longrightarrow> getBucketKey tza t g = getBucketKey tza t ''daily'')"
proof (intro conjI impI)
  show "\<exists>mm. getBucketKey tza t ''15min''
            = isoDate (civil_from_days (Day (LocalTime tza t))) @ ''T'' @ pad2 (getHours tza t)
                @ '':'' @ pad2 mm
          \<and> mm mod 15 = 0 \<and> mm \<le> getMinutes tza t \<and> getMinutes tza t < mm + 15"
  proof (intro exI conjI)
    show "getBucketKey tza t ''15min''
            = isoDate (civil_from_days (Day (LocalTime tza t))) @ ''T'' @ pad2 (getHours tza t)
                @ '':'' @ pad2 (getMinutes tza t div 15 * 15)"
      by (rule getBucketKey_15min)
    show "getMinutes tza t div 15 * 15 mod 15 = 0" by simp
    show "getMinutes tza t div 15 * 15 \<le> getMinutes tza t" by linarith
    show "getMinutes tza t < getMinutes tza t div 15 * 15 + 15" by linarith
  qed
next
  let ?D = "Day (LocalTime tza t)"
  let ?k = "- getDay tza t + (if getDay tza t = 0 then - 6 else 1)"
  have mo: "(?D + ?k + 4) mod 7 = 1 \<and> - 6 \<le> ?k \<and> ?k \<le> 0"
    using monday_offset[of ?D] by (simp add: getDay_def)
  show "\<exists>D. getBucketKey tza t ''weekly'' = isoDate (civil_from_days D)
          \<and> dayOfWeek D = 1 \<and> D \<le> Day (LocalTime tza t) \<and> Day (LocalTime tza t) - D \<le> 6"
  proof (intro exI[of _ "?D + ?k"] conjI)
    show "getBucketKey tza t ''weekly'' = isoDate (civil_from_days (?D + ?k))"
      using getBucketKey_weekly[of tza t] by (simp add: algebra_simps)
    show "dayOfWeek (?D + ?k) = 1" using mo by (simp add: dayOfWeek_def)
    show "?D + ?k \<le> ?D" using mo by linarith
    show "?D - (?D + ?k) \<le> 6" using mo by linarith
  qed
next
  show "getBucketKey tza t ''monthly'' = isoDate (getFullYear tza t, getMonth tza t + 1, 1)"
    by (rule getBucketKey_monthly)
next
  assume "g \<notin> set [''15min'', ''hourly'', ''daily'', ''weekly'', ''monthly'']"
  then show "getBucketKey tza t g = getBucketKey tza t ''daily''"
    by (rule getBucketKey_unknown)
qed

theorem getBucketKey_keys_witness:
  "getBucketKey 0 1705329442000 ''15min'' = ''2024-01-15T14:30''
   \<and> getBucketKey 0 1705329442000 ''yearly'' = getBucketKey 0 1705329442000 ''daily''"
proof -
  have "getBucketKey 0 1705329442000 ''15min'' = ''2024-01-15T14:30''" by code_simp
  moreover have "''yearly'' \<notin> set [''15min'', ''hourly'', ''daily'', ''weekly'', ''monthly'']"
    by simp
  ultimately show ?thesis
    using getBucketKey_keys[of 0 1705329442000 "''yearly''"] by blast
qed

lemma firstAppearances_snoc:
  "firstAppearances (xs @ [x]) = (if x \<in> set xs then firstAppearances xs else firstAppearances xs @ [x])"
  by (simp add: firstAppearances_def)

lemma firstAppearances_set: "set (firstAppearances xs) = set xs"
  by (simp add: firstAppearances_def)

lemma firstAppearances_distinct: "distinct (firstAppearances xs)"
  by (simp add: firstAppearances_def)

lemma map_set_absent: "k \<notin> fst ` set m \<Longrightarrow> map_set m k v = m @ [(k, v)]"
  by (induction m) auto

lemma map_push_absent_snoc:
  "k \<notin> fst ` set m \<Longrightarrow> map_push (m @ [(k, xs)]) k x = m @ [(k, xs @ [x])]"
  by (induction m) auto

lemma map_push_present:
  "distinct ks \<Longrightarrow>
     map_push (map (\<lambda>k. (k, G k)) ks) k0 x
       = map (\<lambda>k. (k, if k = k0 then G k @ [x] else G k)) ks"
  by (induction ks) auto

lemma bucketize_snoc:
  "bucketize tza (rs @ [r]) g =
     (let key = getBucketKey tza (timestamp r) g;
          buckets = bucketize tza rs g;
          buckets1 = (if \<not> map_has buckets key then map_set buckets key [] else buckets)
      in map_push buckets1 key r)"
  by (simp add: bucketize_def Let_def)

lemma bucketize_closed_form:
  "bucketize tza rs g =
     map (\<lambda>k. (k, filter (\<lambda>r. getBucketKey tza (timestamp r) g = k) rs))
         (firstAppearances (map (\<lambda>r. getBucketKey tza (timestamp r) g) rs))"
proof (induction rs rule: rev_induct)
  case Nil
  show ?case by (simp add: bucketize_def firstAppearances_def)
next
  case (snoc r rs)
  define key where "key = (\<lambda>r::reading. getBucketKey tza (timestamp r) g)"
  define ks where "ks = firstAppearances (map key rs)"
  have IH: "bucketize tza rs g = map (\<lambda>k. (k, filter (\<lambda>r. key r = k) rs)) ks"
    using snoc by (simp add: key_def ks_def)
  have keys: "fst ` set (bucketize tza rs g) = set ks"
    unfolding IH by (auto simp: image_iff)
  have ks_set: "set ks = key ` set rs" by (simp add: ks_def firstAppearances_set)
  have dist: "distinct ks" by (simp add: ks_def firstAppearances_distinct)
  have kr: "getBucketKey tza (timestamp r) g = key r" by (simp add: key_def)
  show ?case
  proof (cases "key r \<in> set ks")
    case True
    have "bucketize tza (rs @ [r]) g = map_push (map (\<lambda>k. (k, filter (\<lambda>r. key r = k) rs)) ks) (key r) r"
      using True keys unfolding bucketize_snoc Let_def map_has_def kr by (simp add: IH)
    also have "\<dots> = map (\<lambda>k. (k, if k = key r then filter (\<lambda>r. key r = k) rs @ [r]
                                     else filter (\<lambda>r. key r = k) rs)) ks"
      by (rule map_push_present[OF dist])
    also have "\<dots> = map (\<lambda>k. (k, filter (\<lambda>r. key r = k) (rs @ [r]))) ks"
      by (rule map_cong) auto
    also have "ks = firstAppearances (map key (rs @ [r]))"
      using True ks_set by (simp add: ks_def firstAppearances_snoc)
    finally show ?thesis by (simp add: key_def)
  next
    case False
    then have none: "filter (\<lambda>r'. key r' = key r) rs = []"
      unfolding ks_set filter_empty_conv by (metis imageI)
    have notin: "key r \<notin> fst ` set (map (\<lambda>k. (k, filter (\<lambda>r. key r = k) rs)) ks)"
      using False keys IH by simp
    have "bucketize tza (rs @ [r]) g
            = map_push (map_set (map (\<lambda>k. (k, filter (\<lambda>r. key r = k) rs)) ks) (key r) []) (key r) r"
      using False keys unfolding bucketize_snoc Let_def map_has_def kr by (simp add: IH)
    also have "\<dots> = map (\<lambda>k. (k, filter (\<lambda>r. key r = k) rs)) ks @ [(key r, [] @ [r])]"
      unfolding map_set_absent[OF notin] by (rule map_push_absent_snoc[OF notin])
    also have "\<dots> = map (\<lambda>k. (k, filter (\<lambda>r. key r = k) (rs @ [r]))) (ks @ [key r])"
      using False none by (auto intro: map_cong)
    also have "ks @ [key r] = firstAppearances (map key (rs @ [r]))"
      using False ks_set by (simp add: ks_def firstAppearances_snoc)
    finally show ?thesis by (simp add: key_def)
  qed
qed

lemma filter_mset_disjoint_union:
  assumes "\<And>x. \<not> (P x \<and> Q x)"
  shows "filter_mset P M + filter_mset Q M = filter_mset (\<lambda>x. P x \<or> Q x) M"
  using assms by (induction M) auto

lemma mset_concat_filters:
  "distinct ks \<Longrightarrow>
     mset (concat (map (\<lambda>k. filter (\<lambda>r. key r = k) rs) ks))
       = filter_mset (\<lambda>r. key r \<in> set ks) (mset rs)"
proof (induction ks)
  case Nil
  show ?case by simp
next
  case (Cons k ks)
  then have "mset (concat (map (\<lambda>k. filter (\<lambda>r. key r = k) rs) (k # ks)))
               = filter_mset (\<lambda>r. key r = k) (mset rs) + filter_mset (\<lambda>r. key r \<in> set ks) (mset rs)"
    by simp
  also have "\<dots> = filter_mset (\<lambda>r. key r = k \<or> key r \<in> set ks) (mset rs)"
    using Cons.prems by (intro filter_mset_disjoint_union) auto
  finally show ?case by simp
qed

text \<open>
  Claim C3. \<open>bucketize\<close> partitions its input: the buckets together hold every
  reading exactly once; each bucket is non-empty and holds, in input order, exactly the
  readings whose bucket key is the bucket's key; the keys are exactly the bucket keys of
  the readings, each once, in the order of their first appearance.
\<close>

theorem bucketize_partition:
  "mset (concat (map snd (bucketize tza readings g))) = mset readings
   \<and> (\<forall>(k, b) \<in> set (bucketize tza readings g).
         b \<noteq> [] \<and> b = filter (\<lambda>r. getBucketKey tza (timestamp r) g = k) readings)
   \<and> set (map fst (bucketize tza readings g))
         = (\<lambda>r. getBucketKey tza (timestamp r) g) ` set readings
   \<and> distinct (map fst (bucketize tza readings g))
   \<and> map fst (bucketize tza readings g)
         = firstAppearances (map (\<lambda>r. getBucketKey tza (timestamp r) g) readings)"
proof -
  define key where "key = (\<lambda>r::reading. getBucketKey tza (timestamp r) g)"
  define ks where "ks = firstAppearances (map key readings)"
  have cf: "bucketize tza readings g = map (\<lambda>k. (k, filter (\<lambda>r. key r = k) readings)) ks"
    by (simp add: bucketize_closed_form key_def ks_def)
  have ks_set: "set ks = key ` set readings" by (simp add: ks_def firstAppearances_set)
  have dist: "distinct ks" by (simp add: ks_def firstAppearances_distinct)
  have fsts: "map fst (bucketize tza readings g) = ks"
    unfolding cf by (simp add: comp_def)
  have snds: "map snd (bucketize tza readings g) = map (\<lambda>k. filter (\<lambda>r. key r = k) readings) ks"
    unfolding cf by (simp add: comp_def)
  have "mset (concat (map snd (bucketize tza readings g)))
          = filter_mset (\<lambda>r. key r \<in> set ks) (mset readings)"
    unfolding snds by (rule mset_concat_filters[OF dist])
  also have "\<dots> = mset readings"
    unfolding ks_set by (rule multiset_eqI) auto
  finally have 1: "mset (concat (map snd (bucketize tza readings g))) = mset readings" .
  have 2: "\<forall>(k, b) \<in> set (bucketize tza readings g).
             b \<noteq> [] \<and> b = filter (\<lambda>r. key r = k) readings"
    unfolding cf using ks_set by (auto simp: filter_empty_conv)
  show ?thesis
    using 1 2 fsts ks_set dist unfolding ks_def key_def by simp
qed

theorem bucketize_partition_witness:
  "map fst (bucketize 0 [reading_at 1705312800000, reading_at 1705399200000, reading_at 1705316400000] ''daily'')
     = [''2024-01-15'', ''2024-01-16'']
   \<and> mset (concat (map snd (bucketize 0 [reading_at 1705312800000, reading_at 1705399200000,
          reading_at 1705316400000] ''daily'')))
       = mset [reading_at 1705312800000, reading_at 1705399200000, reading_at 1705316400000]"
proof -
  have k1: "getBucketKey 0 1705312800000 ''daily'' = ''2024-01-15''" by code_simp
  have k2: "getBucketKey 0 1705399200000 ''daily'' = ''2024-01-16''" by code_simp
  have k3: "getBucketKey 0 1705316400000 ''daily'' = ''2024-01-15''" by code_simp
  have "firstAppearances (map (\<lambda>r. getBucketKey 0 (timestamp r) ''daily'')
            [reading_at 1705312800000, reading_at 1705399200000, reading_at 1705316400000])
          = [''2024-01-15'', ''2024-01-16'']"
    by (simp add: reading_at_def k1 k2 k3 firstAppearances_def)
  then show ?thesis
    using bucketize_partition[of 0 "[reading_at 1705312800000, reading_at 1705399200000,
        reading_at 1705316400000]" "''daily''"]
    by simp
qed

text \<open>
  Claim C9. \<open>filterByDayOfWeek\<close> with the empty days array, and with the array of all
  seven weekdays 0 to 6, returns the list of readings unchanged.
\<close>

theorem filterByDayOfWeek_empty_or_all:
  "filterByDayOfWeek tza readings [] = readings
   \<and> filterByDayOfWeek tza readings [0, 1, 2, 3, 4, 5, 6] = readings"
  by (simp add: filterByDayOfWeek_def)

text \<open>
  Claim C10. \<open>filterByDayOfWeek\<close> with any days array of exactly 7 entries returns the
  readings unchanged, whatever the entries are: the identity case is decided by the
  length of the array. In the instance the only reading falls on a Thursday and the array
  holds Monday seven times.
\<close>

theorem filterByDayOfWeek_seven_entries:
  "length days = 7 \<Longrightarrow> filterByDayOfWeek tza readings days = readings"
  by (simp add: filterByDayOfWeek_def)

theorem filterByDayOfWeek_seven_entries_witness:
  "length [1, 1, 1, 1, 1, 1, 1 :: int] = 7
   \<and> getDayOfWeek 0 (timestamp (reading_at 0)) = 4
   \<and> filterByDayOfWeek 0 [reading_at 0] [1, 1, 1, 1, 1, 1, 1] = [reading_at 0]"
  using filterByDayOfWeek_seven_entries[of "[1, 1, 1, 1, 1, 1, 1]" 0 "[reading_at 0]"]
  by (simp add: getDayOfWeek_def getDay_def Day_def LocalTime_def reading_at_def)

text \<open>
  Claim C2, evaluated where it fails (local time is UTC). For the range 2024-01-03 to
  2024-01-09 the weekly keys are generated from the Wednesday 3 January in steps of 7
  days, so the only key is that of the week of 1 January, although Monday 8 January
  lies in the range and has the key 2024-01-08. For the range 2024-01-31 to 2024-03-31
  the monthly step from 31 January overflows into March, so February, which lies in the
  range, has no key.
\<close>

theorem generateBucketRange_misses_buckets:
  "generateBucketRange 0 \<lparr>range_start = (2024, 1, 3), range_end = (2024, 1, 9)\<rparr> ''weekly''
     = [''2024-01-01'']
   \<and> isInRange 0 (Date_of_day (2024, 1, 8)) \<lparr>range_start = (2024, 1, 3), range_end = (2024, 1, 9)\<rparr>
   \<and> getBucketKey 0 (Date_of_day (2024, 1, 8)) ''weekly'' = ''2024-01-08''
   \<and> generateBucketRange 0 \<lparr>range_start = (2024, 1, 31), range_end = (2024, 3, 31)\<rparr> ''monthly''
     = [''2024-01-01'', ''2024-03-01'']
   \<and> isInRange 0 (Date_of_day (2024, 2, 15)) \<lparr>range_start = (2024, 1, 31), range_end = (2024, 3, 31)\<rparr>
   \<and> getBucketKey 0 (Date_of_day (2024, 2, 15)) ''monthly'' = ''2024-02-01''"
  by code_simp

text \<open>
  The example of the specification holds when local time is UTC; eight hours west of UTC
  the same call starts on the local evening of 31 December.
\<close>

lemma generateBucketRange_daily_example:
  "generateBucketRange 0 \<lparr>range_start = (2024, 1, 1), range_end = (2024, 1, 3)\<rparr> ''daily''
     = [''2024-01-01'', ''2024-01-02'', ''2024-01-03'']"
  by code_simp

lemma generateBucketRange_daily_example_west:
  "generateBucketRange (- 28800000) \<lparr>range_start = (2024, 1, 1), range_end = (2024, 1, 3)\<rparr> ''daily''
     = [''2023-12-31'', ''2024-01-01'', ''2024-01-02'']"
  by code_simp

section \<open>The application (main.js)\<close>

text \<open>
  The part of the module-level \<open>state\<close> that the data pipeline and the map values
  read. \<open>null\<close> datasets are \<open>None\<close>. The \<open>selected\<close> array of the series dimension
  holds entity or period ids, and weekday numbers when the type is \<open>dayOfWeek\<close>; a list
  has one element type, so the weekday numbers are kept in \<open>selected_days\<close>.
\<close>

record region =
  region_id :: string
  region_name :: string
  region_color :: string

record blockface =
  blockface_id :: string
  blockface_segmentId :: string
  blockface_name :: string
  blockface_color :: "string option"
  baseOccupancy :: "real option"

record dataset =
  regions :: "region list"
  readings :: "reading list"

record blockface_dataset =
  blockfaces :: "blockface list"
  blockface_readings :: "reading list"

record DatasetType =
  dataset_id :: string
  dataset_name :: string
  yAxisName :: string

record DatePattern =
  datePattern_type :: string
  days :: "int list"

record TimePattern =
  timePattern_type :: string
  ranges :: "(int \<times> int) list"

record CurrentData =
  current_occupancy :: "real option"
  current_capacity :: "real option"
  current_transactions :: real

record SeriesDimension =
  dimension_type :: string
  selected :: "string list"
  selected_days :: "int list"
  segmentId :: string
  segmentName :: "string option"
  currentData :: "CurrentData option"

record state =
  aoiDataset :: string
  blockfaceDataset :: string
  data :: "dataset option"
  blockfaceData :: "blockface_dataset option"
  transactionData :: "dataset option"
  timeRange :: TimeRange
  aggregation :: string
  statistic :: string
  seriesDimension :: SeriesDimension
  combinedView :: bool
  datePattern :: DatePattern
  timePattern :: TimePattern

text \<open>\<open>DATASET_TYPES\<close> of lib/data-loader.js (the fields read here).\<close>

definition occupancy_type :: DatasetType where
  "occupancy_type = \<lparr>dataset_id = ''occupancy'', dataset_name = ''Occupancy'',
                      yAxisName = ''Occupancy %''\<rparr>"

definition transactions_type :: DatasetType where
  "transactions_type = \<lparr>dataset_id = ''transactions'', dataset_name = ''Transactions'',
                         yAxisName = ''Revenue ($)''\<rparr>"

definition DATASET_TYPES :: "string \<Rightarrow> DatasetType option" where
  "DATASET_TYPES k =
     (if k = ''occupancy'' then Some occupancy_type
      else if k = ''transactions'' then Some transactions_type
      else None)"

text \<open>\<open>getActiveData\<close> returns \<open>{data, blockfaceData, datasetType}\<close>, here a triple.\<close>

definition getActiveData ::
    "state \<Rightarrow> string \<Rightarrow> dataset option \<times> blockface_dataset option \<times> DatasetType" where
  "getActiveData st layerType =
     (let isBlockface = (layerType = ''blockface'');
          datasetId = (if isBlockface then blockfaceDataset st else aoiDataset st);
          datasetType = (case DATASET_TYPES datasetId of Some t \<Rightarrow> t | None \<Rightarrow> occupancy_type)
      in if datasetId = ''transactions''
         then (transactionData st, blockfaceData st, datasetType)
         else (data st, blockfaceData st, occupancy_type))"

text \<open>
  A thrown error leaves a loop at once: \<open>mapE\<close> runs a loop body over an array and
  collects what each round pushes, until a round throws.
\<close>

fun mapE :: "('a \<Rightarrow> error + 'b) \<Rightarrow> 'a list \<Rightarrow> error + 'b list" where
  "mapE f [] = Inr []"
| "mapE f (x # xs) =
     (case f x of
        Inl e \<Rightarrow> Inl e
      | Inr y \<Rightarrow> (case mapE f xs of Inl e \<Rightarrow> Inl e | Inr ys \<Rightarrow> Inr (y # ys)))"







text \<open>\<open>(r.occupied / r.capacity) * 100\<close>\<close>

definition occupancyRate :: "reading \<Rightarrow> real" where
  "occupancyRate r = (occupied r / capacity r) * 100"

text \<open>
  The loop over the buckets in the branch of one area, and the same loop in
  \<open>calculateNeighborhoodOccupancy\<close> without the bucket keys.
\<close>

definition bucketValues :: "bool \<Rightarrow> reading list \<Rightarrow> real list" where
  "bucketValues isTransactions bucketReadings =
     (if isTransactions then map transactions bucketReadings
      else map occupancyRate bucketReadings)"



























text \<open>The values of the map, one per area and one per featured blockface.\<close>

record neighborhoodValue =
  neighborhood_id :: string
  neighborhood_name :: string
  neighborhood_value :: real
  neighborhood_color :: string


text \<open>
  \<open>bucketStats.length > 0 ? bucketStats.reduce((a, b) => a + b, 0) / bucketStats.length : 0\<close>
\<close>

definition finalValueOf :: "real list \<Rightarrow> real" where
  "finalValueOf bucketStats =
     (if length bucketStats > 0 then reduce_add bucketStats / real (length bucketStats) else 0)"

text \<open>One round of the loop over \<open>data.regions\<close> in \<open>calculateNeighborhoodOccupancy\<close>.\<close>

definition neighborhoodValueFor ::
    "int \<Rightarrow> state \<Rightarrow> bool \<Rightarrow> reading list \<Rightarrow> region \<Rightarrow> error + neighborhoodValue" where
  "neighborhoodValueFor tza st isTransactions rs region =
     (let regionReadings = filter (\<lambda>r. regionId r = region_id region) rs
      in if length regionReadings = 0
         then Inr \<lparr>neighborhood_id = region_id region, neighborhood_name = region_name region,
                   neighborhood_value = 0, neighborhood_color = region_color region\<rparr>
         else
           (let buckets = bucketize tza regionReadings (aggregation st)
            in case mapE (\<lambda>(bucketKey, bucketReadings).
                       calculate (bucketValues isTransactions bucketReadings) (statistic st))
                     buckets of
                 Inl e \<Rightarrow> Inl e
               | Inr bucketStats \<Rightarrow>
                   Inr \<lparr>neighborhood_id = region_id region,
                        neighborhood_name = region_name region,
                        neighborhood_value = finalValueOf bucketStats,
                        neighborhood_color = region_color region\<rparr>))"

definition calculateNeighborhoodOccupancy :: "int \<Rightarrow> state \<Rightarrow> error + neighborhoodValue list" where
  "calculateNeighborhoodOccupancy tza st =
     (let (dat_opt, bfData, datasetType) = getActiveData st ''aoi''
      in case dat_opt of
           None \<Rightarrow> Inr []
         | Some dat \<Rightarrow>
             (let rs0 = readings dat;
                  isTransactions = (dataset_id datasetType = ''transactions'');
                  rs1 = filter (\<lambda>r. isInRange tza (timestamp r) (timeRange st)) rs0;
                  rs2 = (if datePattern_type (datePattern st) \<noteq> ''all''
                            \<and> dimension_type (seriesDimension st) \<noteq> ''dayOfWeek''
                         then filterByDayOfWeek tza rs1 (days (datePattern st)) else rs1);
                  rs3 = (if timePattern_type (timePattern st) \<noteq> ''all''
                            \<and> dimension_type (seriesDimension st) \<noteq> ''timeOfDay''
                         then filterByHourRange tza rs2 (ranges (timePattern st)) else rs2)
              in mapE (neighborhoodValueFor tza st isTransactions rs3) (regions dat)))"



section \<open>The map value and the reference value\<close>

text \<open>The dispatcher is called with fixed percentiles only, so it never raises.\<close>

lemma calculate_total: "calculate v s = Inr (projr (calculate v s))"
  by (auto simp: calculate_def percentile_def Let_def)

lemma mapE_Inr_map:
  "(\<And>x. x \<in> set xs \<Longrightarrow> f x = Inr (g x)) \<Longrightarrow> mapE f xs = Inr (map g xs)"
  by (induction xs) auto














lemma bucketize_Nil: "bucketize tza [] g = []"
  by (simp add: bucketize_def)

lemma bucketStats_closed:
  "mapE (\<lambda>(bucketKey, bucketReadings). calculate (vals bucketReadings) stat) buckets
     = Inr (map (\<lambda>(k, b). projr (calculate (vals b) stat)) buckets)"
  by (rule mapE_Inr_map) (auto simp: calculate_total[symmetric])


lemma finalValueOf_mean: "finalValueOf xs = mean xs"
  by (simp add: finalValueOf_def mean_def)


subsection \<open>Areas\<close>

text \<open>
  The readings the chart and the map of the areas keep after the three filters, and the
  mean over the buckets of an area of the statistic of each bucket.
\<close>

definition keptReadings :: "int \<Rightarrow> state \<Rightarrow> reading list \<Rightarrow> reading list" where
  "keptReadings tza st rs0 =
     (let rs1 = filter (\<lambda>r. isInRange tza (timestamp r) (timeRange st)) rs0;
          rs2 = (if datePattern_type (datePattern st) \<noteq> ''all''
                    \<and> dimension_type (seriesDimension st) \<noteq> ''dayOfWeek''
                 then filterByDayOfWeek tza rs1 (days (datePattern st)) else rs1);
          rs3 = (if timePattern_type (timePattern st) \<noteq> ''all''
                    \<and> dimension_type (seriesDimension st) \<noteq> ''timeOfDay''
                 then filterByHourRange tza rs2 (ranges (timePattern st)) else rs2)
      in rs3)"

definition areaValue :: "int \<Rightarrow> state \<Rightarrow> bool \<Rightarrow> reading list \<Rightarrow> string \<Rightarrow> real" where
  "areaValue tza st isT rs i =
     finalValueOf (map (\<lambda>(k, b). projr (calculate (bucketValues isT b) (statistic st)))
                     (bucketize tza (filter (\<lambda>r. regionId r = i) rs) (aggregation st)))"

lemma neighborhoodValueFor_closed:
  "neighborhoodValueFor tza st isT rs region =
     Inr \<lparr>neighborhood_id = region_id region, neighborhood_name = region_name region,
          neighborhood_value = areaValue tza st isT rs (region_id region),
          neighborhood_color = region_color region\<rparr>"
  by (simp add: neighborhoodValueFor_def Let_def bucketStats_closed areaValue_def bucketize_Nil
      finalValueOf_def)

lemma calculateNeighborhoodOccupancy_closed:
  assumes "getActiveData st ''aoi'' = (Some dat, b, t)"
  shows "calculateNeighborhoodOccupancy tza st =
           Inr (map (\<lambda>region. \<lparr>neighborhood_id = region_id region,
                               neighborhood_name = region_name region,
                               neighborhood_value =
                                 areaValue tza st (dataset_id t = ''transactions'')
                                   (keptReadings tza st (readings dat)) (region_id region),
                               neighborhood_color = region_color region\<rparr>)
                  (regions dat))"
  unfolding calculateNeighborhoodOccupancy_def assms Let_def prod.case option.case
    keptReadings_def[unfolded Let_def, symmetric]
  by (rule mapE_Inr_map) (rule neighborhoodValueFor_closed)








subsection \<open>Blockfaces\<close>












text \<open>
  The value of an area on the map is the mean, over the buckets of the kept readings of
  the area, of the statistic of each bucket, as the synchronization rule defines it.
\<close>

lemma neighborhood_value_formula:
  assumes "getActiveData st ''aoi'' = (Some dat, b, t)"
    and "calculateNeighborhoodOccupancy tza st = Inr ms" "m \<in> set ms"
    and "mapE (\<lambda>(k, bucket). calculate (bucketValues (dataset_id t = ''transactions'') bucket)
                                (statistic st))
           (bucketize tza (filter (\<lambda>r. regionId r = neighborhood_id m)
                             (keptReadings tza st (readings dat))) (aggregation st))
         = Inr stats"
  shows "neighborhood_value m = mean stats"
proof -
  have "\<forall>m\<in>set ms. neighborhood_value m
          = areaValue tza st (dataset_id t = ''transactions'')
              (keptReadings tza st (readings dat)) (neighborhood_id m)"
    using assms(2) unfolding calculateNeighborhoodOccupancy_closed[OF assms(1)] by auto
  with assms(3) have "neighborhood_value m
          = areaValue tza st (dataset_id t = ''transactions'')
              (keptReadings tza st (readings dat)) (neighborhood_id m)"
    by blast
  moreover have "stats = map (\<lambda>(k, b). projr (calculate (bucketValues (dataset_id t = ''transactions'') b)
                                               (statistic st)))
                   (bucketize tza (filter (\<lambda>r. regionId r = neighborhood_id m)
                                     (keptReadings tza st (readings dat))) (aggregation st))"
    using assms(4) unfolding bucketStats_closed by simp
  ultimately show ?thesis by (simp add: areaValue_def finalValueOf_mean)
qed

section \<open>A concrete configuration\<close>









end
